theory Spec2Isabelle
  imports Complex_Main "HOL-Library.Word" "HOL-Library.Sublist" "HOL-Library.AList"
begin

section \<open>JavaScript strings\<close>

text \<open>
  A JavaScript string is a sequence of UTF-16 code units and \<open>length\<close> counts code
  units, so the texts of the program are lists of 16-bit words. Tag names and class
  names are only ever compared with ASCII constants and stay HOL strings.
\<close>

type_synonym ustring = "16 word list"

definition ustr :: "string \<Rightarrow> ustring" where
  "ustr s = map (\<lambda>c. of_nat (of_char c)) s"

text \<open>
  The class \<open>\s\<close> of a regular expression and the characters removed by
  \<open>String.prototype.trim\<close> are the same set, WhiteSpace and LineTerminator: in
  ASCII the space and the controls from TAB to CR, beyond ASCII the code units listed.
\<close>

definition isWhiteSpace :: "16 word \<Rightarrow> bool" where
  "isWhiteSpace c \<longleftrightarrow>
     (if c < 0x80 then c = 0x20 \<or> (0x9 \<le> c \<and> c \<le> 0xD)
      else c \<in> set [0xA0, 0x1680,
               0x2000, 0x2001, 0x2002, 0x2003, 0x2004, 0x2005, 0x2006, 0x2007,
               0x2008, 0x2009, 0x200A, 0x2028, 0x2029, 0x202F, 0x205F, 0x3000, 0xFEFF])"

definition trim :: "ustring \<Rightarrow> ustring" where
  "trim s = rev (dropWhile isWhiteSpace (rev (dropWhile isWhiteSpace s)))"

text \<open>\<open>text.replace(/\s+/g, " ")\<close>: every maximal run of white space becomes one space.\<close>

function collapseWs :: "ustring \<Rightarrow> ustring" where
  "collapseWs [] = []"
| "collapseWs (c # cs) =
     (if isWhiteSpace c then 0x20 # collapseWs (dropWhile isWhiteSpace cs)
      else c # collapseWs cs)"
  by pat_completeness auto
termination
  by (relation "measure length") (auto simp: length_dropWhile_le less_Suc_eq_le)

text \<open>\<open>normalizeText\<close> (translator.ts, lines 117-119).\<close>

definition normalizeText :: "ustring \<Rightarrow> ustring" where
  "normalizeText text = trim (collapseWs text)"

text \<open>
  \<open>String.prototype.replace\<close> with a string as replacement reads the replacement as
  a template (GetSubstitution): \<open>$$\<close> stands for a dollar sign, \<open>$&\<close> for the matched
  text, \<open>$`\<close> for the part of the subject before the match and \<open>$'\<close> for the part
  after it. The patterns of this program have no capture group, so \<open>$1\<close> ... \<open>$99\<close>
  and \<open>$<\<close> are kept as they are. The arguments are the matched text, the part
  before, the part after and the replacement template.
\<close>

fun getSubstitution :: "ustring \<Rightarrow> ustring \<Rightarrow> ustring \<Rightarrow> ustring \<Rightarrow> ustring" where
  "getSubstitution m b a [] = []"
| "getSubstitution m b a [c] = [c]"
| "getSubstitution m b a (c # d # r) =
     (if c = 0x24 then
        (if d = 0x24 then 0x24 # getSubstitution m b a r
         else if d = 0x26 then m @ getSubstitution m b a r
         else if d = 0x60 then b @ getSubstitution m b a r
         else if d = 0x27 then a @ getSubstitution m b a r
         else c # getSubstitution m b a (d # r))
      else c # getSubstitution m b a (d # r))"

text \<open>
  \<open>s.replace(/p/g, r)\<close> for a pattern \<open>p\<close> that is a literal, non-empty text (the
  three placeholder patterns of \<open>fillTemplate\<close> are): the matches are found from left
  to right and do not overlap; \<open>passed\<close> is the part of the subject already passed.
\<close>

function replaceAllFrom :: "ustring \<Rightarrow> ustring \<Rightarrow> ustring \<Rightarrow> ustring \<Rightarrow> ustring" where
  "replaceAllFrom p r passed [] = []"
| "replaceAllFrom p r passed (c # cs) =
     (if p \<noteq> [] \<and> prefix p (c # cs)
      then getSubstitution p passed (drop (length p) (c # cs)) r
             @ replaceAllFrom p r (passed @ p) (drop (length p) (c # cs))
      else c # replaceAllFrom p r (passed @ [c]) cs)"
  by pat_completeness auto
termination
  by (relation "measure (\<lambda>(p, r, b, s). length s)") (auto simp: neq_Nil_conv)

definition replaceAll :: "ustring \<Rightarrow> ustring \<Rightarrow> ustring \<Rightarrow> ustring" where
  "replaceAll p r s = replaceAllFrom p r [] s"

section \<open>JavaScript values\<close>

text \<open>
  The values a parsed JSON document can hold, and \<open>undefined\<close> for what a property
  read of a missing property gives. A number is the value of the parsed double. An
  object is its list of own properties.
\<close>

datatype jsval =
    JUndefined
  | JNull
  | JBool bool
  | JNum rat
  | JStr ustring
  | JArr "jsval list"
  | JObj "(ustring \<times> jsval) list"

datatype error =
    NoTarget
  | EmptyTranslation
  | SimpleNoUrl
  | SimpleBadStatus nat
  | SimpleParseFailed
  | ChatNoUrl
  | ChatNoKey
  | ChatNoModel
  | ChatNoUserPrompt
  | ChatBadStatus nat ustring
  | ChatParseFailed
  | FetchFailed
  | TypeError
  | RegistryBadStatus nat
  | RegistryJsonFailed

text \<open>The four errors \<open>translateWithOpenAI\<close> throws for an incomplete configuration.\<close>

fun isConfigError :: "error \<Rightarrow> bool" where
  "isConfigError ChatNoUrl = True"
| "isConfigError ChatNoKey = True"
| "isConfigError ChatNoModel = True"
| "isConfigError ChatNoUserPrompt = True"
| "isConfigError _ = False"

fun truthy :: "jsval \<Rightarrow> bool" where
  "truthy JUndefined = False"
| "truthy JNull = False"
| "truthy (JBool b) = b"
| "truthy (JNum n) = (n \<noteq> 0)"
| "truthy (JStr s) = (s \<noteq> [])"
| "truthy (JArr xs) = True"
| "truthy (JObj kvs) = True"

text \<open>\<open>a || b\<close>.\<close>

definition orElse :: "jsval \<Rightarrow> jsval \<Rightarrow> jsval" where
  "orElse a b = (if truthy a then a else b)"

text \<open>
  \<open>v?.name\<close> for the property names this program reads (none of them is a property
  of a prototype of a JSON value): an own property of an object, \<open>undefined\<close>
  everywhere else.
\<close>

fun optGet :: "jsval \<Rightarrow> string \<Rightarrow> jsval" where
  "optGet (JObj kvs) k = (case map_of kvs (ustr k) of Some v \<Rightarrow> v | None \<Rightarrow> JUndefined)"
| "optGet _ k = JUndefined"

text \<open>\<open>v?.[0]\<close>: the first element of an array, the first code unit of a string.\<close>

fun optIndex0 :: "jsval \<Rightarrow> jsval" where
  "optIndex0 (JArr xs) = (case xs of [] \<Rightarrow> JUndefined | x # _ \<Rightarrow> x)"
| "optIndex0 (JObj kvs) = (case map_of kvs (ustr ''0'') of Some v \<Rightarrow> v | None \<Rightarrow> JUndefined)"
| "optIndex0 (JStr s) = (case s of [] \<Rightarrow> JUndefined | c # _ \<Rightarrow> JStr [c])"
| "optIndex0 _ = JUndefined"

fun isArray :: "jsval \<Rightarrow> bool" where
  "isArray (JArr xs) = True"
| "isArray _ = False"

fun isString :: "jsval \<Rightarrow> bool" where
  "isString (JStr s) = True"
| "isString _ = False"

fun elements :: "jsval \<Rightarrow> jsval list" where
  "elements (JArr xs) = xs"
| "elements _ = []"

definition bindE :: "error + 'a \<Rightarrow> ('a \<Rightarrow> error + 'b) \<Rightarrow> error + 'b" where
  "bindE r f = (case r of Inl e \<Rightarrow> Inl e | Inr x \<Rightarrow> f x)"

text \<open>The elements of an array joined by commas; the first conversion that throws wins.\<close>

fun joinE :: "(error + ustring) list \<Rightarrow> error + ustring" where
  "joinE [] = Inr []"
| "joinE [r] = r"
| "joinE (r # rs) =
     (case r of Inl e \<Rightarrow> Inl e
      | Inr s \<Rightarrow> (case joinE rs of Inl e \<Rightarrow> Inl e | Inr t \<Rightarrow> Inr (s @ 0x2C # t)))"

text \<open>
  \<open>String(v)\<close>, which is also the conversion a DOM string attribute applies to the
  value assigned to it. An object is converted by its \<open>toString\<close> and \<open>valueOf\<close>
  methods: an own property \<open>toString\<close> of a parsed object is never callable and hides
  the inherited method, and the inherited \<open>valueOf\<close> returns the object, so the
  conversion throws a TypeError; every other parsed object is \<open>[object Object]\<close>.
  An array is the join of its elements, \<open>null\<close> and \<open>undefined\<close> elements being
  empty. The text of a number is the host's (\<open>nts\<close>).
\<close>

fun jsString :: "(rat \<Rightarrow> ustring) \<Rightarrow> jsval \<Rightarrow> error + ustring" where
  "jsString nts JUndefined = Inr (ustr ''undefined'')"
| "jsString nts JNull = Inr (ustr ''null'')"
| "jsString nts (JBool b) = Inr (ustr (if b then ''true'' else ''false''))"
| "jsString nts (JNum n) = Inr (nts n)"
| "jsString nts (JStr s) = Inr s"
| "jsString nts (JArr xs) =
     joinE (map (\<lambda>x. if x = JNull \<or> x = JUndefined then Inr [] else jsString nts x) xs)"
| "jsString nts (JObj kvs) =
     (if map_of kvs (ustr ''toString'') \<noteq> None then Inl TypeError
      else Inr (ustr ''[object Object]''))"

datatype jsnumber = NaN | Num rat

text \<open>
  \<open>Number(v)\<close>. The number a text denotes is the host's (\<open>stn\<close>). An object is
  converted by \<open>valueOf\<close> and then \<open>toString\<close>, with the same TypeError as above.
\<close>

fun jsNumber :: "(rat \<Rightarrow> ustring) \<Rightarrow> (ustring \<Rightarrow> jsnumber) \<Rightarrow> jsval \<Rightarrow> error + jsnumber" where
  "jsNumber nts stn JUndefined = Inr NaN"
| "jsNumber nts stn JNull = Inr (Num 0)"
| "jsNumber nts stn (JBool b) = Inr (Num (if b then 1 else 0))"
| "jsNumber nts stn (JNum n) = Inr (Num n)"
| "jsNumber nts stn (JStr s) = Inr (stn s)"
| "jsNumber nts stn (JArr xs) = bindE (jsString nts (JArr xs)) (\<lambda>s. Inr (stn s))"
| "jsNumber nts stn (JObj kvs) =
     (if map_of kvs (ustr ''toString'') \<noteq> None then Inl TypeError else Inr NaN)"

section \<open>The rendered document\<close>

text \<open>
  An element of the rendered tree: its identity (the reference the program holds), its
  tag (the local name, in lower case, as a type selector matches it), its class list,
  the text the host reports for it (\<open>innerText\<close>; for an annotation the program
  creates, the \<open>textContent\<close> assigned to it) and its element children. The program
  reads the text of elements without element children only. The document is the tree
  of \<open>document.body\<close>; two nodes are the same node when their references are equal,
  so the references of a document are distinct.
\<close>

datatype element =
  Element (eid: nat) (tagName: string) (classList: "string list") (elemText: ustring)
    (children: "element list")

definition TRANSLATION_CLASS :: string where
  "TRANSLATION_CLASS = ''kiss-translated-block''"

definition HIDE_ORIGINAL_CLASS :: string where
  "HIDE_ORIGINAL_CLASS = ''kiss-hide-original''"

text \<open>
  Every node of a tree in document order, each with its chain of ancestors (the
  parent first). The chain of the top node is \<open>anc\<close>.
\<close>

fun walk :: "element list \<Rightarrow> element \<Rightarrow> (element \<times> element list) list" where
  "walk anc (Element i t cs x ch) =
     (Element i t cs x ch, anc) # concat (map (walk (Element i t cs x ch # anc)) ch)"

fun ids :: "element \<Rightarrow> nat list" where
  "ids (Element i t cs x ch) = i # concat (map ids ch)"

text \<open>The references of a tree with the texts of their nodes, in document order.\<close>

fun texts :: "element \<Rightarrow> (nat \<times> ustring) list" where
  "texts (Element i t cs x ch) = (i, x) # concat (map texts ch)"

text \<open>The node a reference names, with its ancestors.\<close>

definition findCtx :: "nat \<Rightarrow> element \<Rightarrow> (element \<times> element list) option" where
  "findCtx i doc = find (\<lambda>(e, anc). eid e = i) (walk [] doc)"

text \<open>\<open>el.innerText || ""\<close>.\<close>

definition innerTextOf :: "element \<Rightarrow> nat \<Rightarrow> ustring" where
  "innerTextOf doc i = (case findCtx i doc of Some (e, anc) \<Rightarrow> elemText e | None \<Rightarrow> [])"

text \<open>
  \<open>el.closest(sel)\<close> is not null: the element or one of its ancestors matches. The
  match of a selector may depend on the position of the element, so the predicate
  takes the element and its ancestors.
\<close>

fun closest :: "(element \<Rightarrow> element list \<Rightarrow> bool) \<Rightarrow> element \<Rightarrow> element list \<Rightarrow> bool" where
  "closest P e [] = P e []"
| "closest P e (a # anc) = (P e (a # anc) \<or> closest P a anc)"

text \<open>
  \<open>el.querySelectorAll\<close> for a list of tag names: the proper descendants with one of
  the tags, in document order.
\<close>

definition querySelectorAll ::
  "string list \<Rightarrow> element \<Rightarrow> element list \<Rightarrow> (element \<times> element list) list" where
  "querySelectorAll tags e anc = filter (\<lambda>(x, a). tagName x \<in> set tags) (tl (walk anc e))"

text \<open>
  \<open>block.insertAdjacentElement("afterend", n)\<close>: \<open>n\<close> becomes the next sibling of the
  node \<open>b\<close>. The top node has no parent and nothing is inserted after it.
\<close>

fun insertAfter :: "nat \<Rightarrow> element \<Rightarrow> element \<Rightarrow> element" where
  "insertAfter b n (Element i t cs x ch) =
     Element i t cs x
       (concat (map (\<lambda>k. if eid k = b then [k, n] else [insertAfter b n k]) ch))"

text \<open>\<open>el.remove()\<close>: the node leaves its parent, with its subtree.\<close>

fun removeNode :: "nat \<Rightarrow> element \<Rightarrow> element" where
  "removeNode r (Element i t cs x ch) =
     Element i t cs x (map (removeNode r) (filter (\<lambda>k. eid k \<noteq> r) ch))"

fun modifyClasses :: "nat \<Rightarrow> (string list \<Rightarrow> string list) \<Rightarrow> element \<Rightarrow> element" where
  "modifyClasses r f (Element i t cs x ch) =
     Element i t (if i = r then f cs else cs) x (map (modifyClasses r f) ch)"

definition classAdd :: "string \<Rightarrow> string list \<Rightarrow> string list" where
  "classAdd c cs = (if c \<in> set cs then cs else cs @ [c])"

definition classRemove :: "string \<Rightarrow> string list \<Rightarrow> string list" where
  "classRemove c cs = filter (\<lambda>d. d \<noteq> c) cs"

definition hasClass :: "element \<Rightarrow> nat \<Rightarrow> string \<Rightarrow> bool" where
  "hasClass doc i c =
     (case findCtx i doc of Some (e, anc) \<Rightarrow> c \<in> set (classList e) | None \<Rightarrow> False)"

section \<open>Settings, requests and the session\<close>

datatype api_type = Simple | OpenAI

text \<open>\<open>KissTranslatorSettings\<close> (main.ts, lines 12-24), with the types declared there.\<close>

record settings =
  apiType :: api_type
  apiUrl :: ustring
  apiKey :: ustring
  model :: ustring
  fromLang :: ustring
  toLang :: ustring
  systemPrompt :: ustring
  userPrompt :: ustring
  skipSelectors :: "ustring list"
  hideOriginal :: bool
  autoTranslateOnOpen :: bool

datatype message = Message (role: string) (content: ustring)

text \<open>The object handed to \<open>JSON.stringify\<close> for the body of a request.\<close>

datatype body =
    SimpleBody (q: ustring) (source: ustring) (target: ustring) (format: ustring)
      (api_key: "ustring option")
  | ChatBody (bodyModel: ustring) (messages: "message list") (temperature: rat) (stream: bool)

record request =
  reqUrl :: ustring
  reqMethod :: string
  reqHeaders :: "(string \<times> ustring) list"
  reqBody :: body

text \<open>
  A response: its status, its body as text (\<open>res.text()\<close>) and as parsed JSON
  (\<open>res.json()\<close>, \<open>None\<close> when the body does not parse and the call throws).
\<close>

record response =
  status :: nat
  bodyText :: ustring
  bodyJson :: "jsval option"

definition ok :: "response \<Rightarrow> bool" where
  "ok res \<longleftrightarrow> 200 \<le> status res \<and> status res \<le> 299"

datatype fetch_result = Rejected | Responded response

text \<open>
  What the program takes from its host: whether a selector text is a valid selector
  (\<open>closest\<close> throws on an invalid one), whether an element at a position matches a
  selector, the response of the network to a request after the requests made so far,
  and the text of a number.
\<close>

record host =
  selectorValid :: "ustring \<Rightarrow> bool"
  selectorMatches :: "ustring \<Rightarrow> element \<Rightarrow> element list \<Rightarrow> bool"
  fetch :: "request list \<Rightarrow> request \<Rightarrow> fetch_result"
  numberToString :: "rat \<Rightarrow> ustring"

text \<open>
  The fields of a \<open>TranslationSession\<close> (the container element of its view, its
  settings snapshot, the pair mapping in insertion order, the cache) and the part of
  the world it acts on: the document, the next unused element reference, and the log
  of the requests sent, each with the text whose translation asked for it. The
  methods run one after the other: nothing else touches the document or the session
  while \<open>translate\<close> waits for a response.
\<close>

record state =
  view :: "nat option"
  settings :: settings
  translated :: "(nat \<times> nat) list"
  cache :: "ustring \<Rightarrow> jsval option"
  document :: element
  nextId :: nat
  netLog :: "(ustring \<times> request) list"

section \<open>The translation session (translator.ts)\<close>

text \<open>\<open>updateSettings\<close> (lines 18-20).\<close>

definition updateSettings :: "settings \<Rightarrow> state \<Rightarrow> state" where
  "updateSettings st s = s\<lparr>settings := st\<rparr>"

text \<open>
  The methods \<open>hideOriginal\<close> (here \<open>hideOriginals\<close>, the name being taken by the
  field of the settings) and \<open>restoreOriginalVisibility\<close> (lines 52-62).
\<close>

definition hideOriginals :: "state \<Rightarrow> state" where
  "hideOriginals s =
     s\<lparr>document :=
         fold (\<lambda>(original, translation). modifyClasses original (classAdd HIDE_ORIGINAL_CLASS))
           (translated s) (document s)\<rparr>"

definition restoreOriginalVisibility :: "state \<Rightarrow> state" where
  "restoreOriginalVisibility s =
     s\<lparr>document :=
         fold (\<lambda>(original, translation). modifyClasses original (classRemove HIDE_ORIGINAL_CLASS))
           (translated s) (document s)\<rparr>"

text \<open>
  \<open>clear\<close> (lines 38-42), statement by statement: every annotation is removed, the
  mapping is emptied, then the visibility is restored over the mapping as it is then.
\<close>

definition clear :: "state \<Rightarrow> state" where
  "clear s =
     (let s1 = s\<lparr>document :=
                  fold (\<lambda>(original, el). removeNode el) (translated s) (document s)\<rparr>;
          s2 = s1\<lparr>translated := []\<rparr>
      in restoreOriginalVisibility s2)"

text \<open>\<open>applyOriginalVisibility\<close> (lines 44-50).\<close>

definition applyOriginalVisibility :: "state \<Rightarrow> state" where
  "applyOriginalVisibility s =
     (if hideOriginal (settings s) then hideOriginals s else restoreOriginalVisibility s)"


text \<open>\<open>hasTranslations\<close> (lines 258-260).\<close>

definition hasTranslations :: "state \<Rightarrow> bool" where
  "hasTranslations s \<longleftrightarrow> length (translated s) > 0"

text \<open>
  \<open>findPreviewRoot\<close> (lines 64-81): the first descendant of the view's container
  that matches one of three class selectors, else \<open>document.body\<close>.
\<close>

definition firstWithClass :: "(element \<times> element list) list \<Rightarrow> string \<Rightarrow> string option \<Rightarrow> nat option" where
  "firstWithClass cands c outer =
     map_option (\<lambda>(e, anc). eid e)
       (find (\<lambda>(e, anc). c \<in> set (classList e) \<and>
                (case outer of None \<Rightarrow> True
                 | Some w \<Rightarrow> \<exists>a \<in> set anc. w \<in> set (classList a))) cands)"

definition findPreviewRoot :: "state \<Rightarrow> nat option" where
  "findPreviewRoot s =
     (let fallback = Some (eid (document s)) in
      case view s of
        None \<Rightarrow> fallback
      | Some c \<Rightarrow>
         (case findCtx c (document s) of
            None \<Rightarrow> fallback
          | Some (e, anc) \<Rightarrow>
             (let cands = tl (walk anc e) in
              case firstWithClass cands ''markdown-preview-view'' (Some ''markdown-reading-view'') of
                Some r \<Rightarrow> Some r
              | None \<Rightarrow>
                 (case firstWithClass cands ''markdown-preview-view'' None of
                    Some r \<Rightarrow> Some r
                  | None \<Rightarrow>
                     (case firstWithClass cands ''markdown-reading-view'' None of
                        Some r \<Rightarrow> Some r
                      | None \<Rightarrow> fallback)))))"

text \<open>
  \<open>isInSkipArea\<close> (lines 104-115): the loop over the skip selectors; an empty
  selector is passed over, an invalid one throws and the exception is swallowed.
\<close>

fun isInSkipAreaLoop :: "host \<Rightarrow> element \<Rightarrow> element list \<Rightarrow> ustring list \<Rightarrow> bool" where
  "isInSkipAreaLoop h e anc [] = False"
| "isInSkipAreaLoop h e anc (sel # sels) =
     (if sel = [] then isInSkipAreaLoop h e anc sels
      else if selectorValid h sel \<and> closest (selectorMatches h sel) e anc then True
      else isInSkipAreaLoop h e anc sels)"

definition isInSkipArea :: "host \<Rightarrow> state \<Rightarrow> element \<Rightarrow> element list \<Rightarrow> bool" where
  "isInSkipArea h s e anc = isInSkipAreaLoop h e anc (skipSelectors (settings s))"

definition textualTags :: "string list" where
  "textualTags = [''p'', ''li'', ''blockquote'', ''h1'', ''h2'', ''h3'', ''h4'', ''h5'', ''h6'',
     ''td'', ''th'', ''pre'', ''button'', ''label'', ''span'', ''div'']"

text \<open>The filter of \<open>collectBlocks\<close> (lines 87-100), test by test.\<close>

definition blockFilter :: "host \<Rightarrow> state \<Rightarrow> element \<times> element list \<Rightarrow> bool" where
  "blockFilter h s = (\<lambda>(el, anc).
     if isInSkipArea h s el anc then False
     else if TRANSLATION_CLASS \<in> set (classList el) then False
     else if closest (\<lambda>x a. TRANSLATION_CLASS \<in> set (classList x)) el anc then False
     else if querySelectorAll [''input'', ''textarea'', ''select''] el anc \<noteq> [] then False
     else if length (children el) > 0 then False
     else (let text = normalizeText (elemText el) in
           if text = [] then False
           else if length text < 2 then False
           else if length text > 160 then False
           else True))"

text \<open>\<open>collectBlocks\<close> (lines 83-102), with the positions and as the references returned.\<close>

definition collectBlocksCtx ::
  "host \<Rightarrow> nat \<Rightarrow> state \<Rightarrow> (element \<times> element list) list" where
  "collectBlocksCtx h rt s =
     (case findCtx rt (document s) of
        None \<Rightarrow> []
      | Some (e, anc) \<Rightarrow> filter (blockFilter h s) (querySelectorAll textualTags e anc))"

definition collectBlocks :: "host \<Rightarrow> nat \<Rightarrow> state \<Rightarrow> nat list" where
  "collectBlocks h rt s = map (\<lambda>(e, anc). eid e) (collectBlocksCtx h rt s)"

text \<open>The request of \<open>translateWithSimple\<close> (lines 160-176).\<close>

definition simpleRequest :: "settings \<Rightarrow> ustring \<Rightarrow> request" where
  "simpleRequest st text =
     \<lparr>reqUrl = apiUrl st, reqMethod = ''POST'',
      reqHeaders = [(''Content-Type'', ustr ''application/json'')],
      reqBody = SimpleBody text
        (if fromLang st = [] then ustr ''auto'' else fromLang st)
        (if toLang st = [] then ustr ''zh'' else toLang st)
        (ustr ''text'')
        (if apiKey st = [] then None else Some (apiKey st))\<rparr>"

text \<open>
  What \<open>translateWithSimple\<close> makes of the response (lines 178-194). The result is
  the value the function returns: the field of the array form is returned as it is,
  whatever its type.
\<close>

definition simpleResult :: "response \<Rightarrow> error + jsval" where
  "simpleResult res =
     (if \<not> ok res then Inl (SimpleBadStatus (status res))
      else
        (case bodyJson res of
           None \<Rightarrow> Inl SimpleParseFailed
         | Some data \<Rightarrow>
            if isString (optGet data ''translatedText'')
            then Inr (optGet data ''translatedText'')
            else if isArray data \<and> truthy (optGet (optIndex0 data) ''translatedText'')
            then Inr (optGet (optIndex0 data) ''translatedText'')
            else Inr (JStr [])))"

text \<open>\<open>translateWithSimple\<close> (lines 154-195).\<close>

definition translateWithSimple :: "host \<Rightarrow> ustring \<Rightarrow> state \<Rightarrow> (error + jsval) \<times> state" where
  "translateWithSimple h text s =
     (if apiUrl (settings s) = [] then (Inl SimpleNoUrl, s)
      else
        (let req = simpleRequest (settings s) text;
             s' = s\<lparr>netLog := netLog s @ [(text, req)]\<rparr>
         in case fetch h (map snd (netLog s)) req of
              Rejected \<Rightarrow> (Inl FetchFailed, s')
            | Responded res \<Rightarrow> (simpleResult res, s')))"

text \<open>\<open>fillTemplate\<close> (lines 197-203): three replacements, one after the other.\<close>

definition fillTemplate :: "settings \<Rightarrow> ustring \<Rightarrow> ustring \<Rightarrow> ustring" where
  "fillTemplate st template text =
     replaceAll (ustr ''{to}'') (if toLang st = [] then ustr ''zh'' else toLang st)
       (replaceAll (ustr ''{from}'') (if fromLang st = [] then ustr ''auto'' else fromLang st)
          (replaceAll (ustr ''{text}'') text template))"

text \<open>The message list of \<open>translateWithOpenAI\<close> (lines 212-222).\<close>

definition buildMessages :: "settings \<Rightarrow> ustring \<Rightarrow> message list" where
  "buildMessages st text =
     (if trim (systemPrompt st) \<noteq> []
      then [Message ''system'' (fillTemplate st (systemPrompt st) text)] else [])
     @ [Message ''user'' (fillTemplate st (userPrompt st) text)]"

text \<open>The request of \<open>translateWithOpenAI\<close> (lines 224-238).\<close>

definition chatRequest :: "settings \<Rightarrow> ustring \<Rightarrow> request" where
  "chatRequest st text =
     \<lparr>reqUrl = apiUrl st, reqMethod = ''POST'',
      reqHeaders = [(''Content-Type'', ustr ''application/json''),
                    (''Authorization'', ustr ''Bearer '' @ apiKey st)],
      reqBody = ChatBody (model st) (buildMessages st text) (2 / 10) False\<rparr>"

text \<open>\<open>data?.choices?.[0]?.message?.content\<close>.\<close>

definition chatContent :: "jsval \<Rightarrow> jsval" where
  "chatContent data = optGet (optGet (optIndex0 (optGet data ''choices'')) ''message'') ''content''"

text \<open>What \<open>translateWithOpenAI\<close> makes of the response (lines 240-255).\<close>

definition chatResult :: "response \<Rightarrow> error + ustring" where
  "chatResult res =
     (if \<not> ok res then Inl (ChatBadStatus (status res) (bodyText res))
      else
        (case bodyJson res of
           None \<Rightarrow> Inl ChatParseFailed
         | Some data \<Rightarrow>
            (case chatContent data of
               JStr c \<Rightarrow> Inr (trim c)
             | _ \<Rightarrow> Inr [])))"

text \<open>\<open>translateWithOpenAI\<close> (lines 205-256).\<close>

definition translateWithOpenAI :: "host \<Rightarrow> ustring \<Rightarrow> state \<Rightarrow> (error + ustring) \<times> state" where
  "translateWithOpenAI h text s =
     (let st = settings s in
      if apiUrl st = [] then (Inl ChatNoUrl, s)
      else if apiKey st = [] then (Inl ChatNoKey, s)
      else if model st = [] then (Inl ChatNoModel, s)
      else if trim (userPrompt st) = [] then (Inl ChatNoUserPrompt, s)
      else
        (let req = chatRequest st text;
             s' = s\<lparr>netLog := netLog s @ [(text, req)]\<rparr>
         in case fetch h (map snd (netLog s)) req of
              Rejected \<Rightarrow> (Inl FetchFailed, s')
            | Responded res \<Rightarrow> (chatResult res, s')))"

text \<open>The backend selected by \<open>apiType\<close> (the conditional of lines 141-144).\<close>

definition callBackend :: "host \<Rightarrow> ustring \<Rightarrow> state \<Rightarrow> (error + jsval) \<times> state" where
  "callBackend h text s =
     (if apiType (settings s) = OpenAI
      then (case translateWithOpenAI h text s of (r, s') \<Rightarrow> (map_sum id JStr r, s'))
      else translateWithSimple h text s)"

text \<open>\<open>this.cache.get(text)\<close>: \<open>undefined\<close> for a text without entry.\<close>

definition cacheGet :: "state \<Rightarrow> ustring \<Rightarrow> jsval" where
  "cacheGet s text = (case cache s text of Some v \<Rightarrow> v | None \<Rightarrow> JUndefined)"

text \<open>\<open>translateText\<close> (lines 136-152).\<close>

definition translateText :: "host \<Rightarrow> ustring \<Rightarrow> state \<Rightarrow> (error + jsval) \<times> state" where
  "translateText h text s =
     (let cached = cacheGet s text in
      if truthy cached then (Inr cached, s)
      else
        (case callBackend h text s of
           (Inl e, s') \<Rightarrow> (Inl e, s')
         | (Inr translatedText, s') \<Rightarrow>
            if \<not> truthy translatedText then (Inl EmptyTranslation, s')
            else (Inr translatedText, s'\<lparr>cache := (cache s')(text \<mapsto> translatedText)\<rparr>)))"

text \<open>
  \<open>translateBlock\<close> (lines 121-134). The annotation is a new \<open>div\<close> of the
  translation class; assigning its \<open>textContent\<close> converts the value to a string.
\<close>

definition translateBlock :: "host \<Rightarrow> nat \<Rightarrow> state \<Rightarrow> (error + unit) \<times> state" where
  "translateBlock h block s =
     (let text = normalizeText (innerTextOf (document s) block) in
      if text = [] \<or> length text < 2 then (Inr (), s)
      else
        (case translateText h text s of
           (Inl e, s1) \<Rightarrow> (Inl e, s1)
         | (Inr v, s1) \<Rightarrow>
            if \<not> truthy v then (Inr (), s1)
            else
              (case jsString (numberToString h) v of
                 Inl e \<Rightarrow> (Inl e, s1)
               | Inr txt \<Rightarrow>
                  (let translation = Element (nextId s1) ''div'' [TRANSLATION_CLASS] txt []
                   in (Inr (),
                       s1\<lparr>document := insertAfter block translation (document s1),
                          nextId := Suc (nextId s1),
                          translated := AList.update block (nextId s1) (translated s1)\<rparr>)))))"

text \<open>The loop of \<open>translate\<close> (lines 31-33): the first exception ends it.\<close>

fun translateBlocks :: "host \<Rightarrow> nat list \<Rightarrow> state \<Rightarrow> (error + unit) \<times> state" where
  "translateBlocks h [] s = (Inr (), s)"
| "translateBlocks h (block # blocks) s =
     (case translateBlock h block s of
        (Inl e, s') \<Rightarrow> (Inl e, s')
      | (Inr u, s') \<Rightarrow> translateBlocks h blocks s')"

text \<open>\<open>translate\<close> (lines 22-36).\<close>

definition translate :: "host \<Rightarrow> nat option \<Rightarrow> state \<Rightarrow> (error + unit) \<times> state" where
  "translate h rootOverride s =
     (case (case rootOverride of Some r \<Rightarrow> Some r | None \<Rightarrow> findPreviewRoot s) of
        None \<Rightarrow> (Inl NoTarget, s)
      | Some rt \<Rightarrow>
         (let s0 = clear s;
              blocks = collectBlocks h rt s0
          in case translateBlocks h blocks s0 of
               (Inl e, s1) \<Rightarrow> (Inl e, s1)
             | (Inr u, s1) \<Rightarrow> (Inr (), applyOriginalVisibility s1)))"

section \<open>The cloud registry (cloud.ts)\<close>

text \<open>\<open>CloudDictMeta\<close> (lines 4-15).\<close>

record meta =
  metaId :: ustring
  metaScope :: ustring
  metaName :: ustring
  metaDescription :: "ustring option"
  metaDownloadUrl :: ustring
  metaUpdatedAt :: "jsnumber option"
  metaEntryCount :: "jsnumber option"
  metaVersion :: "jsnumber option"
  metaVotes :: jsval
  metaSize :: "jsnumber option"

text \<open>\<open>raw?.field ? Number(raw.field) : undefined\<close>.\<close>

definition optNumber ::
  "(rat \<Rightarrow> ustring) \<Rightarrow> (ustring \<Rightarrow> jsnumber) \<Rightarrow> jsval \<Rightarrow> error + jsnumber option" where
  "optNumber nts stn v =
     (if truthy v then bindE (jsNumber nts stn v) (\<lambda>n. Inr (Some n)) else Inr None)"

text \<open>
  \<open>normalizeMeta\<close> (lines 53-69): \<open>Inr None\<close> is the \<open>null\<close> returned for an item
  that is dropped, \<open>Inl\<close> an exception of a conversion.
\<close>

definition normalizeMeta ::
  "(rat \<Rightarrow> ustring) \<Rightarrow> (ustring \<Rightarrow> jsnumber) \<Rightarrow> jsval \<Rightarrow> nat \<Rightarrow> error + meta option" where
  "normalizeMeta nts stn raw idx =
     bindE (jsString nts (orElse (optGet raw ''scope'') (orElse (optGet raw ''id'') (JStr []))))
       (\<lambda>scope0. let scope = trim scope0 in
     bindE (jsString nts (orElse (optGet raw ''downloadUrl'') (orElse (optGet raw ''url'') (JStr []))))
       (\<lambda>url0. let downloadUrl = trim url0 in
     if scope = [] \<or> downloadUrl = [] then Inr None
     else
     bindE (jsString nts (orElse (optGet raw ''id'') (orElse (JStr scope) (JNum (of_nat idx)))))
       (\<lambda>mid.
     bindE (jsString nts (orElse (optGet raw ''name'') (JStr scope)))
       (\<lambda>mname.
     bindE (if truthy (optGet raw ''description'')
            then bindE (jsString nts (optGet raw ''description'')) (\<lambda>d. Inr (Some d))
            else Inr None)
       (\<lambda>mdesc.
     bindE (optNumber nts stn (optGet raw ''updatedAt''))
       (\<lambda>mupdated.
     bindE (optNumber nts stn (optGet raw ''entryCount''))
       (\<lambda>mcount.
     bindE (optNumber nts stn (optGet raw ''version''))
       (\<lambda>mversion.
     bindE (optNumber nts stn (optGet raw ''size''))
       (\<lambda>msize.
     Inr (Some \<lparr>metaId = mid, metaScope = scope, metaName = mname, metaDescription = mdesc,
                metaDownloadUrl = downloadUrl, metaUpdatedAt = mupdated,
                metaEntryCount = mcount, metaVersion = mversion,
                metaVotes = optGet raw ''votes'', metaSize = msize\<rparr>))))))))))"

text \<open>\<open>items.map((raw, idx) => normalizeMeta(raw, idx))\<close>: the first exception ends it.\<close>

fun normalizeAll ::
  "(rat \<Rightarrow> ustring) \<Rightarrow> (ustring \<Rightarrow> jsnumber) \<Rightarrow> jsval list \<Rightarrow> nat \<Rightarrow> error + meta option list" where
  "normalizeAll nts stn [] idx = Inr []"
| "normalizeAll nts stn (raw # raws) idx =
     bindE (normalizeMeta nts stn raw idx)
       (\<lambda>m. bindE (normalizeAll nts stn raws (Suc idx)) (\<lambda>ms. Inr (m # ms)))"

text \<open>
  What \<open>fetchRegistry\<close> takes from its host: \<open>requestUrl\<close> (an exception, or the
  status and the parsed body, \<open>None\<close> when reading \<open>res.json\<close> throws), the text of a
  number and the number of a text.
\<close>

record cloud_host =
  requestUrl :: "ustring \<Rightarrow> error + (nat \<times> jsval option)"
  cloudNumberToString :: "rat \<Rightarrow> ustring"
  stringToNumber :: "ustring \<Rightarrow> jsnumber"

text \<open>
  \<open>fetchRegistry\<close> (lines 17-32): the result and the URLs requested.
\<close>

definition fetchRegistry :: "cloud_host \<Rightarrow> ustring \<Rightarrow> (error + meta list) \<times> ustring list" where
  "fetchRegistry h url =
     (if url = [] then (Inr [], [])
      else
        (case requestUrl h url of
           Inl e \<Rightarrow> (Inl e, [url])
         | Inr (st, js) \<Rightarrow>
            if st < 200 \<or> st \<ge> 300 then (Inl (RegistryBadStatus st), [url])
            else
              (case js of
                 None \<Rightarrow> (Inl RegistryJsonFailed, [url])
               | Some data \<Rightarrow>
                  (let items = (if isArray (optGet data ''dictionaries'')
                                then elements (optGet data ''dictionaries'')
                                else if isArray data then elements data
                                else [])
                   in (bindE (normalizeAll (cloudNumberToString h) (stringToNumber h) items 0)
                         (\<lambda>ms. Inr (concat (map (\<lambda>m. case m of None \<Rightarrow> [] | Some x \<Rightarrow> [x]) ms))),
                       [url])))))"

section \<open>Well-formed states and what a block shows\<close>




section \<open>The selection rule in the words of the specification\<close>



section \<open>Concrete inputs\<close>

definition exDoc :: element where
  "exDoc = Element 0 ''body'' [] []
     [Element 1 ''div'' [] []
        [Element 2 ''p'' [] (ustr ''Hello world'') [],
         Element 3 ''p'' [] (ustr ''Hello  world '') []],
      Element 4 ''ul'' [] []
        [Element 5 ''li'' [] (ustr ''Bye'') [],
         Element 6 ''li'' [] (ustr ''Later text'') []]]"

definition exSimple :: settings where
  "exSimple = \<lparr>apiType = Simple, apiUrl = ustr ''http://t'', apiKey = [], model = [],
     fromLang = ustr ''en'', toLang = ustr ''de'', systemPrompt = [], userPrompt = [],
     skipSelectors = [], hideOriginal = False, autoTranslateOnOpen = False\<rparr>"

definition exChat :: settings where
  "exChat = \<lparr>apiType = OpenAI, apiUrl = ustr ''http://c'', apiKey = ustr ''k'',
     model = ustr ''m'', fromLang = ustr ''en'', toLang = ustr ''zh'', systemPrompt = [],
     userPrompt = ustr ''Translate {text} from {from} to {to}'',
     skipSelectors = [], hideOriginal = False, autoTranslateOnOpen = False\<rparr>"

definition exChatNoKey :: settings where
  "exChatNoKey = exChat\<lparr>apiKey := []\<rparr>"

text \<open>
  A host whose simple backend translates one text and answers every other request
  without the expected field, and whose chat backend answers without any choice.
\<close>

definition exHost :: host where
  "exHost = \<lparr>selectorValid = (\<lambda>sel. sel = ustr ''.skip''),
     selectorMatches = (\<lambda>sel e anc. ''skip'' \<in> set (classList e)),
     fetch = (\<lambda>log req. case reqBody req of
        SimpleBody qtext src tgt fmt key \<Rightarrow>
          if qtext = ustr ''Hello world''
          then Responded \<lparr>status = 200, bodyText = [],
                 bodyJson = Some (JObj [(ustr ''translatedText'', JStr (ustr ''Hallo Welt''))])\<rparr>
          else Responded \<lparr>status = 200, bodyText = [], bodyJson = Some (JObj [])\<rparr>
      | ChatBody m msgs temp str \<Rightarrow>
          Responded \<lparr>status = 200, bodyText = ustr ''raw'',
            bodyJson = Some (JObj [(ustr ''choices'', JArr [])])\<rparr>),
     numberToString = (\<lambda>n. ustr ''0'')\<rparr>"

definition exState :: state where
  "exState = \<lparr>view = None, settings = exSimple, translated = [], cache = (\<lambda>t. None),
     document = exDoc, nextId = 7, netLog = []\<rparr>"

text \<open>
  The session after the loop over the two paragraphs, and after a first translation
  of them.
\<close>

definition exMid :: state where
  "exMid = snd (translateBlocks exHost [2, 3] (clear exState))"

definition exWarm :: state where
  "exWarm = snd (translate exHost (Some 1) exState)"

text \<open>
  The same session after the original texts were hidden, as the toggle command of
  main.ts does it: new settings, then \<open>applyOriginalVisibility\<close>.
\<close>

definition exHidden :: state where
  "exHidden = applyOriginalVisibility (updateSettings (exSimple\<lparr>hideOriginal := True\<rparr>) exWarm)"

definition exMidDoc :: element where
  "exMidDoc = Element 0 ''body'' [] []
     [Element 1 ''div'' [] []
        [Element 2 ''p'' [] (ustr ''Hello world'') [],
         Element 7 ''div'' [TRANSLATION_CLASS] (ustr ''Hallo Welt'') [],
         Element 3 ''p'' [] (ustr ''Hello  world '') [],
         Element 8 ''div'' [TRANSLATION_CLASS] (ustr ''Hallo Welt'') []],
      Element 4 ''ul'' [] []
        [Element 5 ''li'' [] (ustr ''Bye'') [],
         Element 6 ''li'' [] (ustr ''Later text'') []]]"

text \<open>
  Sessions with an empty cache and a chat configuration, complete and without the key.
\<close>

definition exChatState :: state where
  "exChatState = exState\<lparr>settings := exChat\<rparr>"

definition exNoKeyState :: state where
  "exNoKeyState = exState\<lparr>settings := exChatNoKey\<rparr>"




text \<open>The response of the chat backend of \<open>exHost\<close>.\<close>

definition exChatResponse :: response where
  "exChatResponse = \<lparr>status = 200, bodyText = ustr ''raw'',
     bodyJson = Some (JObj [(ustr ''choices'', JArr [])])\<rparr>"

text \<open>
  A tree for the selection rule: texts of 50, 1 and 161 code units, a paragraph in
  a skipped region and a paragraph inside an annotation.
\<close>

definition exSelDoc :: element where
  "exSelDoc = Element 0 ''body'' [] []
     [Element 1 ''p'' [] (replicate 50 0x61) [],
      Element 2 ''p'' [] [0x61] [],
      Element 3 ''p'' [] (replicate 161 0x61) [],
      Element 4 ''div'' [''skip''] [] [Element 5 ''p'' [] (ustr ''skipped text'') []],
      Element 6 ''div'' [TRANSLATION_CLASS] [] [Element 7 ''p'' [] (ustr ''translated'') []]]"

definition exSelState :: state where
  "exSelState = \<lparr>view = None, settings = exSimple\<lparr>skipSelectors := [[], ustr ''.skip'']\<rparr>,
     translated = [], cache = (\<lambda>t. None), document = exSelDoc, nextId = 8, netLog = []\<rparr>"

text \<open>
  Two registries: one with a complete item and two incomplete ones, one whose only
  item has no scope and an object with a \<open>toString\<close> property as URL.
\<close>

definition exRegistry :: jsval where
  "exRegistry = JObj [(ustr ''dictionaries'', JArr
     [JObj [(ustr ''scope'', JStr (ustr ''core'')), (ustr ''url'', JStr (ustr ''http://d''))],
      JObj [(ustr ''id'', JStr (ustr ''nourl''))],
      JObj [(ustr ''downloadUrl'', JStr (ustr ''http://e''))]])]"

definition exBadRegistry :: jsval where
  "exBadRegistry = JArr [JObj [(ustr ''url'', JObj [(ustr ''toString'', JNum 1)])]]"

definition exMeta :: meta where
  "exMeta = \<lparr>metaId = ustr ''core'', metaScope = ustr ''core'', metaName = ustr ''core'',
     metaDescription = None, metaDownloadUrl = ustr ''http://d'', metaUpdatedAt = None,
     metaEntryCount = None, metaVersion = None, metaVotes = JUndefined, metaSize = None\<rparr>"

definition exCloud :: "jsval \<Rightarrow> cloud_host" where
  "exCloud payload = \<lparr>requestUrl = (\<lambda>u. Inr (200, Some payload)),
     cloudNumberToString = (\<lambda>n. ustr ''0''), stringToNumber = (\<lambda>t. NaN)\<rparr>"

section \<open>The document: references, texts, insertion and removal\<close>

text \<open>
  The references and the texts of a tree are projections of its walk, and the text
  read through a reference is a lookup in the list of texts. Inserting a node leaves
  the texts read through every other reference as they were.
\<close>

lemma ids_walk: "map (\<lambda>(e, a). eid e) (walk anc e) = ids e"
proof (induction e arbitrary: anc)
  case (Element i t cs x ch)
  then show ?case by (simp add: map_concat cong: map_cong)
qed














section \<open>What the backends and a block leave unchanged\<close>

text \<open>
  A backend call changes nothing but the request log, to which it adds at most the
  one request for its text; \<open>translateText\<close> changes the cache besides; a block that
  fails leaves the document and the pair mapping as they were.
\<close>

lemma translateWithSimple_frame:
  assumes "translateWithSimple h t s = (r, s')"
  shows "view s' = view s \<and> settings s' = settings s \<and> translated s' = translated s
         \<and> cache s' = cache s \<and> document s' = document s \<and> nextId s' = nextId s
         \<and> (netLog s' = netLog s \<or> (\<exists>req. netLog s' = netLog s @ [(t, req)]))"
  using assms
  by (auto simp: translateWithSimple_def Let_def split: if_splits fetch_result.splits)

lemma translateWithOpenAI_frame:
  assumes "translateWithOpenAI h t s = (r, s')"
  shows "view s' = view s \<and> settings s' = settings s \<and> translated s' = translated s
         \<and> cache s' = cache s \<and> document s' = document s \<and> nextId s' = nextId s
         \<and> (netLog s' = netLog s \<or> (\<exists>req. netLog s' = netLog s @ [(t, req)]))"
  using assms
  by (auto simp: translateWithOpenAI_def Let_def split: if_splits fetch_result.splits)

lemma callBackend_frame:
  assumes "callBackend h t s = (r, s')"
  shows "view s' = view s \<and> settings s' = settings s \<and> translated s' = translated s
         \<and> cache s' = cache s \<and> document s' = document s \<and> nextId s' = nextId s
         \<and> (netLog s' = netLog s \<or> (\<exists>req. netLog s' = netLog s @ [(t, req)]))"
proof (cases "apiType (settings s) = OpenAI")
  case True
  obtain r0 s0 where c: "translateWithOpenAI h t s = (r0, s0)" by (cases "translateWithOpenAI h t s")
  with True assms have "s' = s0" by (simp add: callBackend_def)
  with translateWithOpenAI_frame [OF c] show ?thesis by simp
next
  case False
  with assms have "translateWithSimple h t s = (r, s')" by (simp add: callBackend_def)
  then show ?thesis by (rule translateWithSimple_frame)
qed

lemma translateText_frame:
  assumes "translateText h t s = (r, s')"
  shows "view s' = view s \<and> settings s' = settings s \<and> translated s' = translated s
         \<and> document s' = document s \<and> nextId s' = nextId s"
proof -
  obtain r0 s0 where c: "callBackend h t s = (r0, s0)" by (cases "callBackend h t s")
  note f = callBackend_frame [OF c]
  from assms c f show ?thesis
    by (auto simp: translateText_def Let_def split: if_splits sum.splits)
qed

lemma translateBlock_error_frame:
  assumes "translateBlock h b s = (Inl e, s')"
  shows "document s' = document s \<and> translated s' = translated s \<and> nextId s' = nextId s
         \<and> settings s' = settings s \<and> view s' = view s"
proof -
  let ?t = "normalizeText (innerTextOf (document s) b)"
  obtain r0 s0 where c: "translateText h ?t s = (r0, s0)" by (cases "translateText h ?t s")
  note f = translateText_frame [OF c]
  from assms c f show ?thesis
    by (auto simp: translateBlock_def Let_def split: if_splits sum.splits)
qed

lemma translateBlocks_append:
  "translateBlocks h (xs @ ys) s =
     (case translateBlocks h xs s of
        (Inl e, s') \<Rightarrow> (Inl e, s')
      | (Inr u, s') \<Rightarrow> translateBlocks h ys s')"
  by (induction xs arbitrary: s) (auto split: prod.splits sum.splits)

text \<open>
  Claim C3. When the selected blocks are \<open>xs @ b # ys\<close>, the blocks \<open>xs\<close> are
  translated and the translation of \<open>b\<close> throws \<open>e\<close>, then \<open>translate\<close> ends with
  the error \<open>e\<close> in the state the failing block left; the result is the same
  whatever blocks follow \<open>b\<close>, so none of them is translated or annotated; and the
  document and the pair mapping are those reached after \<open>xs\<close>: the annotations
  inserted before stay in place.
\<close>

theorem translate_aborts_at_first_failure:
  assumes rt: "(case rootOverride of Some r \<Rightarrow> Some r | None \<Rightarrow> findPreviewRoot s) = Some rt"
    and blocks: "collectBlocks h rt (clear s) = xs @ b # ys"
    and prev: "translateBlocks h xs (clear s) = (Inr (), s1)"
    and fails: "translateBlock h b s1 = (Inl e, s2)"
  shows "translate h rootOverride s = (Inl e, s2)
         \<and> (\<forall>ys'. translateBlocks h (xs @ b # ys') (clear s) = (Inl e, s2))
         \<and> document s2 = document s1 \<and> translated s2 = translated s1"
proof -
  have loop: "translateBlocks h (xs @ b # ys') (clear s) = (Inl e, s2)" for ys'
    using prev fails by (simp add: translateBlocks_append)
  have "translate h rootOverride s = (Inl e, s2)"
    using rt blocks loop [of ys] by (simp add: translate_def Let_def)
  with loop translateBlock_error_frame [OF fails] show ?thesis by simp
qed

text \<open>
  Claim C2. When a block with a text of at least two code units is reached, the
  cache has no usable entry for its text and the selected backend returns a falsy
  value, then \<open>translate\<close> as a whole fails with the empty-translation error, and
  the document and the pair mapping are as they were before that block: no
  annotation is inserted for it.
\<close>

theorem empty_translation_fails_translate:
  assumes rt: "(case rootOverride of Some r \<Rightarrow> Some r | None \<Rightarrow> findPreviewRoot s) = Some rt"
    and blocks: "collectBlocks h rt (clear s) = xs @ b # ys"
    and prev: "translateBlocks h xs (clear s) = (Inr (), s1)"
    and btext: "text = normalizeText (innerTextOf (document s1) b)" "2 \<le> length text"
    and miss: "\<not> truthy (cacheGet s1 text)"
    and empty: "callBackend h text s1 = (Inr v, s2)" "\<not> truthy v"
  shows "translate h rootOverride s = (Inl EmptyTranslation, s2)
         \<and> document s2 = document s1 \<and> translated s2 = translated s1"
proof -
  have tt: "translateText h text s1 = (Inl EmptyTranslation, s2)"
    using miss empty by (simp add: translateText_def Let_def)
  have "text \<noteq> []" using btext(2) by auto
  with btext tt have tb: "translateBlock h b s1 = (Inl EmptyTranslation, s2)"
    by (simp add: translateBlock_def Let_def)
  have "translateBlocks h (xs @ b # ys) (clear s) = (Inl EmptyTranslation, s2)"
    using prev tb by (simp add: translateBlocks_append)
  then have "translate h rootOverride s = (Inl EmptyTranslation, s2)"
    using rt blocks by (simp add: translate_def Let_def)
  with translateBlock_error_frame [OF tb] show ?thesis by simp
qed

text \<open>
  Claim C9. \<open>updateSettings\<close> replaces the settings snapshot and nothing else: the
  pair mapping, the document (the annotations and the hidden flags of the originals),
  the cache, the view, the reference counter and the request log are unchanged, and
  a text with a truthy cache entry is served from the cache afterwards, whatever the
  new settings are.
\<close>

theorem updateSettings_changes_settings_only:
  "settings (updateSettings st s) = st
   \<and> translated (updateSettings st s) = translated s
   \<and> document (updateSettings st s) = document s
   \<and> cache (updateSettings st s) = cache s
   \<and> view (updateSettings st s) = view s
   \<and> nextId (updateSettings st s) = nextId s
   \<and> netLog (updateSettings st s) = netLog s
   \<and> (\<forall>h text v. cache s text = Some v \<and> truthy v \<longrightarrow>
        translateText h text (updateSettings st s) = (Inr v, updateSettings st s))"
  by (simp add: updateSettings_def translateText_def cacheGet_def)

section \<open>Subtrees, distinct references and counting\<close>

text \<open>
  The walk of a subtree is part of the walk of the tree, so distinct references stay
  distinct in a subtree and after a removal, and a reference of a document with
  distinct references names one node.
\<close>

lemma walk_subset:
  "(x, a) \<in> set (walk anc d) \<Longrightarrow> set (walk a x) \<subseteq> set (walk anc d)"
proof (induction d arbitrary: anc)
  case (Element i t cs tx ch)
  show ?case
  proof (cases "(x, a) = (Element i t cs tx ch, anc)")
    case True
    then show ?thesis by simp
  next
    case False
    with Element.prems obtain k where k: "k \<in> set ch"
      "(x, a) \<in> set (walk (Element i t cs tx ch # anc) k)" by auto
    with Element.IH have "set (walk a x) \<subseteq> set (walk (Element i t cs tx ch # anc) k)" by blast
    with k(1) show ?thesis by auto
  qed
qed



lemma find_distinct:
  "distinct (map f xs) \<Longrightarrow> x \<in> set xs \<Longrightarrow> find (\<lambda>y. f y = f x) xs = Some x"
  by (induction xs) (auto simp: rev_image_eqI)

lemma findCtx_distinct:
  assumes "distinct (ids d)" "(x, a) \<in> set (walk [] d)"
  shows "findCtx (eid x) d = Some (x, a)"
proof -
  have "distinct (map (\<lambda>(e, a). eid e) (walk [] d))" using assms(1) by (simp add: ids_walk)
  from find_distinct [OF this assms(2)] show ?thesis
    by (simp add: findCtx_def case_prod_unfold)
qed

lemma findCtx_in_walk: "findCtx i d = Some (x, a) \<Longrightarrow> (x, a) \<in> set (walk [] d) \<and> eid x = i"
  by (auto simp: findCtx_def find_Some_iff) (metis nth_mem)

lemma subseq_concat_map_filter:
  "(\<And>k. k \<in> set ch \<Longrightarrow> subseq (f k) (g k))
   \<Longrightarrow> subseq (concat (map f (filter P ch))) (concat (map g ch))"
proof (induction ch)
  case Nil
  then show ?case by simp
next
  case (Cons k ch)
  then have ih: "subseq (concat (map f (filter P ch))) (concat (map g ch))" by simp
  show ?case
  proof (cases "P k")
    case True
    with ih Cons.prems [of k] show ?thesis by (simp add: list_emb_append_mono)
  next
    case False
    with ih show ?thesis by (simp add: subseq_drop_many)
  qed
qed

lemma subseq_ids_removeNode: "subseq (ids (removeNode r d)) (ids d)"
proof (induction d)
  case (Element i t cs tx ch)
  have "subseq (concat (map (\<lambda>k. ids (removeNode r k)) (filter (\<lambda>k. eid k \<noteq> r) ch)))
               (concat (map ids ch))"
    by (rule subseq_concat_map_filter) (use Element in auto)
  then show ?case by (simp add: comp_def)
qed

lemma distinct_ids_removeNode: "distinct (ids d) \<Longrightarrow> distinct (ids (removeNode r d))"
  using subseq_ids_removeNode [of r d] by (auto simp: subseq_conv_nths)


lemma texts_modifyClasses: "texts (modifyClasses r f d) = texts d"
proof (induction d)
  case (Element i t cs tx ch)
  then show ?case by (simp add: comp_def cong: map_cong)
qed

lemma clear_fields:
  "translated (clear s) = [] \<and> netLog (clear s) = netLog s \<and> cache (clear s) = cache s
   \<and> settings (clear s) = settings s \<and> view (clear s) = view s \<and> nextId (clear s) = nextId s
   \<and> document (clear s) = fold (\<lambda>(original, el). removeNode el) (translated s) (document s)"
  by (simp add: clear_def restoreOriginalVisibility_def Let_def)

lemma distinct_fold_removeNode:
  "distinct (ids d) \<Longrightarrow> distinct (ids (fold (\<lambda>(original, el). removeNode el) ps d))"
  by (induction ps arbitrary: d) (auto simp: distinct_ids_removeNode)


lemma distinct_clear: "distinct (ids (document s)) \<Longrightarrow> distinct (ids (document (clear s)))"
  by (simp add: clear_fields distinct_fold_removeNode)


section \<open>The selection rule\<close>









section \<open>Configuration errors, missing content and the registry\<close>

lemma collectBlocks_text:
  assumes wf: "distinct (ids (document s))"
    and b: "b \<in> set (collectBlocks h rt s)"
  shows "2 \<le> length (normalizeText (innerTextOf (document s) b))"
proof -
  from b obtain e anc where m: "(e, anc) \<in> set (collectBlocksCtx h rt s)" and be: "b = eid e"
    by (auto simp: collectBlocks_def)
  from m obtain r ranc where rt: "findCtx rt (document s) = Some (r, ranc)"
    by (cases "findCtx rt (document s)") (auto simp: collectBlocksCtx_def)
  with m have cand: "(e, anc) \<in> set (tl (walk ranc r))" and f: "blockFilter h s (e, anc)"
    by (auto simp: collectBlocksCtx_def querySelectorAll_def)
  from cand have "(e, anc) \<in> set (walk ranc r)" by (cases "walk ranc r") auto
  moreover from rt have "(r, ranc) \<in> set (walk [] (document s))" by (simp add: findCtx_in_walk)
  ultimately have "(e, anc) \<in> set (walk [] (document s))" using walk_subset by blast
  with wf have "findCtx (eid e) (document s) = Some (e, anc)" by (rule findCtx_distinct)
  then have "innerTextOf (document s) b = elemText e" by (simp add: innerTextOf_def be)
  moreover from f have "2 \<le> length (normalizeText (elemText e))"
    by (auto simp: blockFilter_def Let_def split: if_splits)
  ultimately show ?thesis by simp
qed

lemma translateWithOpenAI_config:
  assumes "apiUrl (settings s) = [] \<or> apiKey (settings s) = [] \<or> model (settings s) = []
           \<or> trim (userPrompt (settings s)) = []"
  shows "\<exists>e. isConfigError e \<and> translateWithOpenAI h text s = (Inl e, s)"
  using assms by (auto simp: translateWithOpenAI_def Let_def)

text \<open>
  Claim C6, amended. With the chat backend selected and the endpoint, the key, the
  model or the user prompt missing, in a document of distinct references with at
  least one selected block, \<open>translate\<close> fails with a configuration error, provided
  the cache has no usable entry for the text of the first selected block. The state
  it leaves is the cleared session: the pair mapping is empty and the request log is
  the one before the call, so no request was sent.
\<close>

theorem incomplete_chat_config_rejects:
  assumes chat: "apiType (settings s) = OpenAI"
    and missing: "apiUrl (settings s) = [] \<or> apiKey (settings s) = [] \<or> model (settings s) = []
           \<or> trim (userPrompt (settings s)) = []"
    and rt: "(case rootOverride of Some r \<Rightarrow> Some r | None \<Rightarrow> findPreviewRoot s) = Some rt"
    and wf: "distinct (ids (document s))"
    and blocks: "collectBlocks h rt (clear s) = b # bs"
    and miss: "\<not> truthy (cacheGet s (normalizeText (innerTextOf (document (clear s)) b)))"
  shows "\<exists>e. isConfigError e \<and> translate h rootOverride s = (Inl e, clear s)
           \<and> translated (clear s) = [] \<and> netLog (clear s) = netLog s"
proof -
  let ?s0 = "clear s"
  let ?t = "normalizeText (innerTextOf (document ?s0) b)"
  note cf = clear_fields [of s]
  from missing cf obtain e where e: "isConfigError e" "translateWithOpenAI h ?t ?s0 = (Inl e, ?s0)"
    using translateWithOpenAI_config [of ?s0 h ?t] by auto
  with chat cf have "callBackend h ?t ?s0 = (Inl e, ?s0)" by (simp add: callBackend_def)
  with miss cf have tt: "translateText h ?t ?s0 = (Inl e, ?s0)"
    by (simp add: translateText_def Let_def cacheGet_def)
  from wf have "distinct (ids (document ?s0))" by (rule distinct_clear)
  moreover from blocks have "b \<in> set (collectBlocks h rt ?s0)" by simp
  ultimately have "2 \<le> length ?t" by (rule collectBlocks_text)
  then have "?t \<noteq> []" "\<not> length ?t < 2" by auto
  with tt have "translateBlock h b ?s0 = (Inl e, ?s0)" by (simp add: translateBlock_def Let_def)
  then have "translateBlocks h (b # bs) ?s0 = (Inl e, ?s0)" by simp
  with rt blocks have "translate h rootOverride s = (Inl e, ?s0)"
    by (simp add: translate_def Let_def)
  with e(1) cf show ?thesis by blast
qed

text \<open>
  Claim C8, amended. For a complete chat configuration and a response of status 2xx
  whose parsed body has no string at \<open>choices[0].message.content\<close>,
  \<open>translateWithOpenAI\<close> returns the empty string after logging its request, and
  \<open>translateText\<close>, on a cache miss, fails with the empty-translation error, which
  carries nothing of the response.
\<close>

theorem chat_missing_content_is_empty_translation:
  assumes cfg: "apiUrl (settings s) \<noteq> []" "apiKey (settings s) \<noteq> []" "model (settings s) \<noteq> []"
      "trim (userPrompt (settings s)) \<noteq> []"
    and resp: "fetch h (map snd (netLog s)) (chatRequest (settings s) text) = Responded res"
    and good: "ok res" "bodyJson res = Some data"
    and nostr: "\<not> isString (chatContent data)"
  shows "translateWithOpenAI h text s
           = (Inr [], s\<lparr>netLog := netLog s @ [(text, chatRequest (settings s) text)]\<rparr>)
         \<and> (apiType (settings s) = OpenAI
              \<and> \<not> truthy (cacheGet s text)
            \<longrightarrow> fst (translateText h text s) = Inl EmptyTranslation)"
proof -
  from good nostr have "chatResult res = Inr []"
    by (cases "chatContent data") (simp_all add: chatResult_def)
  with cfg resp have a: "translateWithOpenAI h text s
           = (Inr [], s\<lparr>netLog := netLog s @ [(text, chatRequest (settings s) text)]\<rparr>)"
    by (simp add: translateWithOpenAI_def Let_def)
  then show ?thesis by (simp add: translateText_def callBackend_def Let_def)
qed

lemma normalizeMeta_Some:
  assumes "normalizeMeta nts stn raw idx = Inr (Some m)"
  shows "metaScope m \<noteq> [] \<and> metaDownloadUrl m \<noteq> []"
  using assms unfolding normalizeMeta_def bindE_def Let_def
  by (auto split: sum.splits if_splits)

lemma normalizeAll_Some:
  "normalizeAll nts stn raws idx = Inr ms \<Longrightarrow> Some m \<in> set ms
   \<Longrightarrow> metaScope m \<noteq> [] \<and> metaDownloadUrl m \<noteq> []"
proof (induction raws arbitrary: idx ms)
  case Nil
  then show ?case by simp
next
  case (Cons raw raws)
  from Cons.prems(1) obtain x xs where x: "normalizeMeta nts stn raw idx = Inr x"
    and xs: "normalizeAll nts stn raws (Suc idx) = Inr xs" and ms: "ms = x # xs"
    by (auto simp: bindE_def split: sum.splits)
  from Cons.prems(2) ms consider "x = Some m" | "Some m \<in> set xs" by auto
  then show ?case
  proof cases
    case 1
    with x show ?thesis by (simp add: normalizeMeta_Some)
  next
    case 2
    with xs show ?thesis by (rule Cons.IH)
  qed
qed

text \<open>
  Claim C10, amended. Every element of a list \<open>fetchRegistry\<close> returns has a
  non-empty scope and a non-empty download URL. A raw item whose \<open>scope\<close> and \<open>id\<close>
  are both missing or falsy is dropped without error whenever its URL value converts
  to a string, and a raw item whose \<open>downloadUrl\<close> and \<open>url\<close> are both missing or
  falsy is dropped without error whenever its scope value converts to a string. For
  the empty URL \<open>fetchRegistry\<close> returns the empty list and requests nothing.
\<close>

theorem fetchRegistry_keeps_complete_items:
  "(\<forall>metas urls m. fetchRegistry h url = (Inr metas, urls) \<and> m \<in> set metas
       \<longrightarrow> metaScope m \<noteq> [] \<and> metaDownloadUrl m \<noteq> [])
   \<and> (\<forall>raw idx u.
         \<not> truthy (orElse (optGet raw ''scope'') (orElse (optGet raw ''id'') (JStr [])))
         \<and> jsString nts (orElse (optGet raw ''downloadUrl'') (orElse (optGet raw ''url'') (JStr [])))
             = Inr u
       \<longrightarrow> normalizeMeta nts stn raw idx = Inr None)
   \<and> (\<forall>raw idx v.
         \<not> truthy (orElse (optGet raw ''downloadUrl'') (orElse (optGet raw ''url'') (JStr [])))
         \<and> jsString nts (orElse (optGet raw ''scope'') (orElse (optGet raw ''id'') (JStr [])))
             = Inr v
       \<longrightarrow> normalizeMeta nts stn raw idx = Inr None)
   \<and> fetchRegistry h [] = (Inr [], [])"
proof -
  have a: "metaScope m \<noteq> [] \<and> metaDownloadUrl m \<noteq> []"
    if "fetchRegistry h url = (Inr metas, urls)" "m \<in> set metas" for metas urls m
  proof -
    from that have "\<exists>items ms.
        normalizeAll (cloudNumberToString h) (stringToNumber h) items 0 = Inr ms
        \<and> metas = concat (map (\<lambda>m. case m of None \<Rightarrow> [] | Some x \<Rightarrow> [x]) ms)"
      by (auto simp: fetchRegistry_def bindE_def Let_def
          split: if_splits sum.splits option.splits prod.splits)
    then obtain items ms where
      n: "normalizeAll (cloudNumberToString h) (stringToNumber h) items 0 = Inr ms"
      and metas: "metas = concat (map (\<lambda>m. case m of None \<Rightarrow> [] | Some x \<Rightarrow> [x]) ms)"
      by blast
    from that(2) metas have "Some m \<in> set ms" by (auto split: option.splits)
    with n show ?thesis by (rule normalizeAll_Some)
  qed
  have falsy: "\<not> truthy (orElse x (orElse y (JStr []))) \<Longrightarrow> orElse x (orElse y (JStr [])) = JStr []"
    for x y by (auto simp: orElse_def split: if_splits)
  have b: "normalizeMeta nts stn raw idx = Inr None"
    if "\<not> truthy (orElse (optGet raw ''scope'') (orElse (optGet raw ''id'') (JStr [])))"
      "jsString nts (orElse (optGet raw ''downloadUrl'') (orElse (optGet raw ''url'') (JStr [])))
             = Inr u" for raw idx u
    using that(2) falsy [OF that(1)]
    by (simp add: normalizeMeta_def bindE_def Let_def trim_def)
  have c: "normalizeMeta nts stn raw idx = Inr None"
    if "\<not> truthy (orElse (optGet raw ''downloadUrl'') (orElse (optGet raw ''url'') (JStr [])))"
      "jsString nts (orElse (optGet raw ''scope'') (orElse (optGet raw ''id'') (JStr [])))
             = Inr v" for raw idx v
    using that(2) falsy [OF that(1)]
    by (simp add: normalizeMeta_def bindE_def Let_def trim_def)
  have d: "fetchRegistry h [] = (Inr [], [])" by (simp add: fetchRegistry_def)
  from a b c d show ?thesis by blast
qed

text \<open>
  The message list: a system message when the system prompt is not blank, then the
  user message. A text without dollar sign is put in the place of the placeholder.
\<close>

lemma buildMessages_shape:
  "buildMessages st text =
     (if trim (systemPrompt st) \<noteq> []
      then [Message ''system'' (fillTemplate st (systemPrompt st) text),
            Message ''user'' (fillTemplate st (userPrompt st) text)]
      else [Message ''user'' (fillTemplate st (userPrompt st) text)])"
  by (simp add: buildMessages_def)

lemma fillTemplate_example:
  "buildMessages exChat (ustr ''Hello'') = [Message ''user'' (ustr ''Translate Hello from en to zh'')]"
  by code_simp

text \<open>
  Claim C7, at concrete inputs. The text is handed to \<open>replace\<close> as the replacement,
  where a dollar sign is a pattern: for the block text \<open>Use $$ for math\<close> the user
  message holds \<open>Use $ for math\<close>, and for the block text \<open>$&\<close> the placeholder
  \<open>{text}\<close> is replaced by itself and stays in the message.
\<close>

theorem fillTemplate_reads_dollar_patterns:
  "buildMessages exChat (ustr ''Use $$ for math'')
     = [Message ''user'' (ustr ''Translate Use $ for math from en to zh'')]
   \<and> buildMessages exChat (ustr ''$&'')
     = [Message ''user'' (ustr ''Translate {text} from en to zh'')]"
  by code_simp

section \<open>The cache within one translation\<close>


























lemma texts_fold_modifyClasses:
  "texts (fold (\<lambda>(original, translation). modifyClasses original f) ps d) = texts d"
  by (induction ps arbitrary: d) (auto simp: texts_modifyClasses)

lemma applyOriginalVisibility_fields:
  "translated (applyOriginalVisibility s) = translated s
   \<and> cache (applyOriginalVisibility s) = cache s
   \<and> netLog (applyOriginalVisibility s) = netLog s
   \<and> nextId (applyOriginalVisibility s) = nextId s
   \<and> texts (document (applyOriginalVisibility s)) = texts (document s)"
  by (simp add: applyOriginalVisibility_def hideOriginals_def restoreOriginalVisibility_def
      texts_fold_modifyClasses)



section \<open>The theorems at concrete inputs\<close>

text \<open>
  The loop over the two paragraphs of the example is evaluated once; the states the
  theorems below start from are read off its result.
\<close>

lemma exTrace:
  "(case translateBlocks exHost [2, 3] (clear exState) of
      (r, s) \<Rightarrow> (r, translated s, document s, cache s (ustr ''Bye''),
                  cache s (ustr ''Hello world''), map fst (netLog s), nextId s, settings s))
   = (Inr (), [(2, 7), (3, 8)], exMidDoc, None, Some (JStr (ustr ''Hallo Welt'')),
      [ustr ''Hello world''], 9, exSimple)"
  by code_simp

lemma exBlocks0: "collectBlocks exHost 0 (clear exState) = [2, 3, 5, 6]"
  by code_simp

lemma exBlocks1: "collectBlocks exHost 1 (clear exState) = [2, 3]"
  by code_simp

lemma exMid_run: "translateBlocks exHost [2, 3] (clear exState) = (Inr (), exMid)"
  using exTrace by (auto simp: exMid_def split: prod.splits)

lemma exMid_fields:
  "translated exMid = [(2, 7), (3, 8)] \<and> document exMid = exMidDoc
   \<and> cache exMid (ustr ''Bye'') = None
   \<and> cache exMid (ustr ''Hello world'') = Some (JStr (ustr ''Hallo Welt''))
   \<and> map fst (netLog exMid) = [ustr ''Hello world''] \<and> nextId exMid = 9
   \<and> settings exMid = exSimple"
  using exTrace by (auto simp: exMid_def split: prod.splits)

lemma exWarm_run: "translate exHost (Some 1) exState = (Inr (), applyOriginalVisibility exMid)"
  by (simp only: translate_def Let_def option.case exBlocks1 exMid_run prod.case sum.case)

lemma exWarm_eq: "exWarm = applyOriginalVisibility exMid"
  by (simp only: exWarm_def exWarm_run snd_conv)

lemma exBye_text: "normalizeText (innerTextOf exMidDoc 5) = ustr ''Bye''"
  by code_simp

lemma exBye_backend:
  "callBackend exHost (ustr ''Bye'') exMid
     = (Inr (JStr []),
        exMid\<lparr>netLog := netLog exMid @ [(ustr ''Bye'', simpleRequest exSimple (ustr ''Bye''))]\<rparr>)"
  by (simp add: callBackend_def translateWithSimple_def exMid_fields Let_def exSimple_def
      exHost_def simpleRequest_def simpleResult_def ok_def ustr_def)


lemma exWarm_doc:
  "fold (\<lambda>(original, translation). modifyClasses original (classRemove HIDE_ORIGINAL_CLASS))
     [(2, 7), (3, 8::nat)] exMidDoc = exMidDoc"
  by code_simp

lemma exWarm_fields:
  "translated exWarm = [(2, 7), (3, 8)] \<and> document exWarm = exMidDoc"
proof -
  have "\<not> hideOriginal (settings exMid)" by (simp add: exMid_fields exSimple_def)
  then have w: "exWarm = restoreOriginalVisibility exMid"
    by (simp add: exWarm_eq applyOriginalVisibility_def)
  have "document (restoreOriginalVisibility exMid)
      = fold (\<lambda>(original, translation). modifyClasses original (classRemove HIDE_ORIGINAL_CLASS))
          (translated exMid) (document exMid)"
    by (simp add: restoreOriginalVisibility_def)
  also have "\<dots> = exMidDoc"
    by (simp only: exMid_fields exWarm_doc)
  finally have "document exWarm = exMidDoc" unfolding w .
  moreover have "translated exWarm = [(2, 7), (3, 8)]"
    unfolding w by (simp add: restoreOriginalVisibility_def exMid_fields)
  ultimately show ?thesis by simp
qed

lemma exBye_fails:
  "translateBlock exHost 5 exMid
     = (Inl EmptyTranslation,
        exMid\<lparr>netLog := netLog exMid @ [(ustr ''Bye'', simpleRequest exSimple (ustr ''Bye''))]\<rparr>)"
proof -
  have t: "normalizeText (innerTextOf (document exMid) 5) = ustr ''Bye''"
    by (simp add: exMid_fields exBye_text)
  have len: "ustr ''Bye'' \<noteq> []" "\<not> length (ustr ''Bye'') < 2"
    by (simp_all add: ustr_def)
  have miss: "\<not> truthy (cacheGet exMid (ustr ''Bye''))"
    by (simp add: cacheGet_def exMid_fields)
  then have tt: "translateText exHost (ustr ''Bye'') exMid
     = (Inl EmptyTranslation,
        exMid\<lparr>netLog := netLog exMid @ [(ustr ''Bye'', simpleRequest exSimple (ustr ''Bye''))]\<rparr>)"
    by (simp add: translateText_def Let_def exBye_backend)
  show ?thesis unfolding translateBlock_def Let_def t using len tt by simp
qed

lemma exHidden_classes:
  "hasClass (fold (\<lambda>(original, translation). modifyClasses original (classAdd HIDE_ORIGINAL_CLASS))
       [(2, 7), (3, 8::nat)] exMidDoc) 2 HIDE_ORIGINAL_CLASS
   \<and> hasClass (fold (\<lambda>(original, el). removeNode el) [(2::nat, 7), (3, 8)]
       (fold (\<lambda>(original, translation). modifyClasses original (classAdd HIDE_ORIGINAL_CLASS))
          [(2, 7), (3, 8::nat)] exMidDoc)) 2 HIDE_ORIGINAL_CLASS"
  by code_simp

text \<open>
  Claim C1, at a concrete session. After a translation, and after the originals were
  hidden, paragraph 2 is paired with annotation 7 and carries the hidden class.
  \<open>clear\<close> empties the pair mapping before it restores the visibility over that
  mapping, so after \<open>clear\<close> the mapping is empty and paragraph 2 still carries the
  hidden class.
\<close>

theorem clear_leaves_original_hidden:
  "translate exHost (Some 1) exState = (Inr (), exWarm)
   \<and> hideOriginal (settings exHidden)
   \<and> map_of (translated exHidden) 2 = Some 7
   \<and> hasClass (document exHidden) 2 HIDE_ORIGINAL_CLASS
   \<and> translated (clear exHidden) = []
   \<and> hasClass (document (clear exHidden)) 2 HIDE_ORIGINAL_CLASS"
proof -
  have w: "exHidden = hideOriginals (updateSettings (exSimple\<lparr>hideOriginal := True\<rparr>) exWarm)"
    by (simp add: exHidden_def applyOriginalVisibility_def updateSettings_def)
  have f: "translated exHidden = [(2, 7), (3, 8)]"
    "document exHidden
      = fold (\<lambda>(original, translation). modifyClasses original (classAdd HIDE_ORIGINAL_CLASS))
          [(2, 7), (3, 8::nat)] exMidDoc"
    by (simp_all add: w hideOriginals_def updateSettings_def exWarm_fields)
  have c1: "translate exHost (Some 1) exState = (Inr (), exWarm)"
    unfolding exWarm_eq by (rule exWarm_run)
  have c2: "hideOriginal (settings exHidden)"
    by (simp add: w hideOriginals_def updateSettings_def)
  have c3: "map_of (translated exHidden) 2 = Some 7" unfolding f by simp
  have c4: "hasClass (document exHidden) 2 HIDE_ORIGINAL_CLASS"
    unfolding f using exHidden_classes by (rule conjunct1)
  have c5: "translated (clear exHidden) = []" by (simp add: clear_fields)
  have "document (clear exHidden) = fold (\<lambda>(original, el). removeNode el) (translated exHidden)
      (document exHidden)" by (simp add: clear_fields)
  then have c6: "hasClass (document (clear exHidden)) 2 HIDE_ORIGINAL_CLASS"
    unfolding f using exHidden_classes by (simp only:)
  from c1 c2 c3 c4 c5 c6 show ?thesis by blast
qed

text \<open>
  Claim C3 at a concrete session: the third of four blocks fails.
\<close>

theorem translate_aborts_at_first_failure_witness:
  "translate exHost (Some 0) exState
     = (Inl EmptyTranslation,
        exMid\<lparr>netLog := netLog exMid @ [(ustr ''Bye'', simpleRequest exSimple (ustr ''Bye''))]\<rparr>)
   \<and> (\<forall>ys'. translateBlocks exHost ([2, 3] @ 5 # ys') (clear exState)
        = (Inl EmptyTranslation,
           exMid\<lparr>netLog := netLog exMid
                     @ [(ustr ''Bye'', simpleRequest exSimple (ustr ''Bye''))]\<rparr>))
   \<and> document (exMid\<lparr>netLog := netLog exMid
                       @ [(ustr ''Bye'', simpleRequest exSimple (ustr ''Bye''))]\<rparr>)
       = document exMid
   \<and> translated (exMid\<lparr>netLog := netLog exMid
                       @ [(ustr ''Bye'', simpleRequest exSimple (ustr ''Bye''))]\<rparr>)
       = translated exMid"
proof -
  have rt: "(case Some (0::nat) of Some r \<Rightarrow> Some r | None \<Rightarrow> findPreviewRoot exState) = Some 0"
    by simp
  have blocks: "collectBlocks exHost 0 (clear exState) = [2, 3] @ 5 # [6]"
    by (simp add: exBlocks0)
  show ?thesis
    by (rule translate_aborts_at_first_failure [OF rt blocks exMid_run exBye_fails])
qed

text \<open>
  Claim C2 at a concrete session: the backend has no translation for the third block.
\<close>

theorem empty_translation_fails_translate_witness:
  "translate exHost (Some 0) exState
     = (Inl EmptyTranslation,
        exMid\<lparr>netLog := netLog exMid @ [(ustr ''Bye'', simpleRequest exSimple (ustr ''Bye''))]\<rparr>)
   \<and> document (exMid\<lparr>netLog := netLog exMid
                       @ [(ustr ''Bye'', simpleRequest exSimple (ustr ''Bye''))]\<rparr>)
       = document exMid
   \<and> translated (exMid\<lparr>netLog := netLog exMid
                       @ [(ustr ''Bye'', simpleRequest exSimple (ustr ''Bye''))]\<rparr>)
       = translated exMid"
proof -
  have rt: "(case Some (0::nat) of Some r \<Rightarrow> Some r | None \<Rightarrow> findPreviewRoot exState) = Some 0"
    by simp
  have blocks: "collectBlocks exHost 0 (clear exState) = [2, 3] @ 5 # [6]"
    by (simp add: exBlocks0)
  have t1: "ustr ''Bye'' = normalizeText (innerTextOf (document exMid) 5)"
    by (simp add: exMid_fields exBye_text)
  have t2: "2 \<le> length (ustr ''Bye'')"
    by (simp add: ustr_def)
  have miss: "\<not> truthy (cacheGet exMid (ustr ''Bye''))"
    by (simp add: cacheGet_def exMid_fields)
  have falsy: "\<not> truthy (JStr [])" by simp
  show ?thesis
    by (rule empty_translation_fails_translate [OF rt blocks exMid_run t1 t2 miss exBye_backend falsy])
qed

text \<open>
  Claim C9 at a concrete session: a cached text after the settings lost their key.
\<close>

theorem updateSettings_changes_settings_only_witness:
  "translateText exHost (ustr ''Hello world'') (updateSettings exChatNoKey exWarm)
     = (Inr (JStr (ustr ''Hallo Welt'')), updateSettings exChatNoKey exWarm)"
proof -
  have "ustr ''Hallo Welt'' \<noteq> []" by (simp add: ustr_def)
  then have c: "cache exWarm (ustr ''Hello world'') = Some (JStr (ustr ''Hallo Welt''))
           \<and> truthy (JStr (ustr ''Hallo Welt''))"
    by (simp add: exWarm_eq applyOriginalVisibility_fields exMid_fields)
  from updateSettings_changes_settings_only [of exChatNoKey exWarm] c
  show ?thesis by blast
qed

lemma exSel_blocks: "collectBlocks exHost 0 exSelState = [1]"
  by code_simp









lemma exNoKeyRetrace:
  "(case translate exHost (Some 1) (updateSettings exChatNoKey exWarm) of
      (r, s) \<Rightarrow> (r, translated s, map fst (netLog s)))
   = (Inr (), [(2, 9), (3, 10)], [ustr ''Hello world''])"
  by code_simp

text \<open>
  Claim C6 as stated fails: the session that has translated the two paragraphs
  keeps their text in its cache; after \<open>updateSettings\<close> with a chat configuration
  without key, \<open>translate\<close> finds both texts in the cache, never reaches the
  configuration checks, succeeds and pairs both paragraphs.
\<close>

theorem warm_cache_hides_missing_key:
  "apiType (settings (updateSettings exChatNoKey exWarm)) = OpenAI
   \<and> apiKey (settings (updateSettings exChatNoKey exWarm)) = []
   \<and> fst (translate exHost (Some 1) (updateSettings exChatNoKey exWarm)) = Inr ()
   \<and> translated (snd (translate exHost (Some 1) (updateSettings exChatNoKey exWarm)))
       = [(2, 9), (3, 10)]"
proof -
  obtain r s where rs: "translate exHost (Some 1) (updateSettings exChatNoKey exWarm) = (r, s)"
    by (cases "translate exHost (Some 1) (updateSettings exChatNoKey exWarm)")
  with exNoKeyRetrace have "r = Inr ()" "translated s = [(2, 9), (3, 10)]" by simp_all
  with rs show ?thesis
    by (simp add: updateSettings_def exChatNoKey_def exChat_def)
qed

lemma exBlocksNoKey: "collectBlocks exHost 1 (clear exNoKeyState) = [2, 3]"
  by code_simp

text \<open>
  Claim C6, amended, at a concrete session with an empty cache and no key.
\<close>

theorem incomplete_chat_config_rejects_witness:
  "\<exists>e. isConfigError e
     \<and> translate exHost (Some 1) exNoKeyState = (Inl e, clear exNoKeyState)
     \<and> translated (clear exNoKeyState) = []
     \<and> netLog (clear exNoKeyState) = netLog exNoKeyState"
proof -
  have chat: "apiType (settings exNoKeyState) = OpenAI"
    by (simp add: exNoKeyState_def exChatNoKey_def exChat_def)
  have missing: "apiUrl (settings exNoKeyState) = [] \<or> apiKey (settings exNoKeyState) = []
      \<or> model (settings exNoKeyState) = [] \<or> trim (userPrompt (settings exNoKeyState)) = []"
    by (simp add: exNoKeyState_def exChatNoKey_def exChat_def)
  have rt: "(case Some (1::nat) of Some r \<Rightarrow> Some r | None \<Rightarrow> findPreviewRoot exNoKeyState) = Some 1"
    by simp
  have wf: "distinct (ids (document exNoKeyState))"
    by (simp add: exNoKeyState_def exState_def exDoc_def)
  have blocks: "collectBlocks exHost 1 (clear exNoKeyState) = 2 # [3]"
    by (rule exBlocksNoKey)
  have miss: "\<not> truthy (cacheGet exNoKeyState
      (normalizeText (innerTextOf (document (clear exNoKeyState)) 2)))"
    by (simp add: cacheGet_def exNoKeyState_def exState_def)
  show ?thesis
    by (rule incomplete_chat_config_rejects [OF chat missing rt wf blocks miss])
qed



lemma exChat_fetch:
  "fetch exHost (map snd (netLog exChatState)) (chatRequest (settings exChatState) (ustr ''Hello''))
     = Responded exChatResponse"
  by (simp add: exHost_def chatRequest_def exChatResponse_def)

lemma exChat_config:
  "apiType (settings exChatState) = OpenAI
   \<and> apiUrl (settings exChatState) \<noteq> [] \<and> apiKey (settings exChatState) \<noteq> []
   \<and> model (settings exChatState) \<noteq> [] \<and> trim (userPrompt (settings exChatState)) \<noteq> []
   \<and> \<not> truthy (cacheGet exChatState (ustr ''Hello''))"
  by code_simp

lemma exChat_response:
  "ok exChatResponse \<and> bodyJson exChatResponse = Some (JObj [(ustr ''choices'', JArr [])])
   \<and> \<not> isString (chatContent (JObj [(ustr ''choices'', JArr [])]))
   \<and> bodyText exChatResponse = ustr ''raw''"
  by code_simp

text \<open>
  Claim C8 as stated fails: for a response of status 200 without content the call
  of the backend is no failure (it returns the empty string), and the error of
  \<open>translateText\<close> is the constant empty-translation error.
\<close>

theorem chat_missing_content_not_surfaced:
  "fetch exHost (map snd (netLog exChatState)) (chatRequest (settings exChatState) (ustr ''Hello''))
     = Responded exChatResponse
   \<and> ok exChatResponse
   \<and> chatContent (JObj [(ustr ''choices'', JArr [])]) = JUndefined
   \<and> fst (translateWithOpenAI exHost (ustr ''Hello'') exChatState) = Inr []
   \<and> fst (translateText exHost (ustr ''Hello'') exChatState) = Inl EmptyTranslation"
proof -
  have "chatContent (JObj [(ustr ''choices'', JArr [])]) = JUndefined" by code_simp
  moreover have "fst (translateWithOpenAI exHost (ustr ''Hello'') exChatState) = Inr []"
    using exChat_config exChat_response
    by (simp add: translateWithOpenAI_def Let_def exChat_fetch chatResult_def
        \<open>chatContent (JObj [(ustr ''choices'', JArr [])]) = JUndefined\<close>)
  moreover from this have "fst (translateText exHost (ustr ''Hello'') exChatState) = Inl EmptyTranslation"
    using exChat_config
    by (cases "translateWithOpenAI exHost (ustr ''Hello'') exChatState")
       (simp add: translateText_def callBackend_def Let_def)
  ultimately show ?thesis using exChat_fetch exChat_response by simp
qed

text \<open>
  Claim C8, amended, at a concrete session: the response has no choice at all.
\<close>

theorem chat_missing_content_is_empty_translation_witness:
  "translateWithOpenAI exHost (ustr ''Hello'') exChatState
     = (Inr [], exChatState\<lparr>netLog := netLog exChatState
           @ [(ustr ''Hello'', chatRequest (settings exChatState) (ustr ''Hello''))]\<rparr>)
   \<and> fst (translateText exHost (ustr ''Hello'') exChatState) = Inl EmptyTranslation"
proof -
  from exChat_config have cfg: "apiUrl (settings exChatState) \<noteq> []"
    "apiKey (settings exChatState) \<noteq> []" "model (settings exChatState) \<noteq> []"
    "trim (userPrompt (settings exChatState)) \<noteq> []"
    and rest: "apiType (settings exChatState) = OpenAI"
      "\<not> truthy (cacheGet exChatState (ustr ''Hello''))" by simp_all
  from exChat_response have good: "ok exChatResponse"
    "bodyJson exChatResponse = Some (JObj [(ustr ''choices'', JArr [])])"
    and nostr: "\<not> isString (chatContent (JObj [(ustr ''choices'', JArr [])]))" by simp_all
  from chat_missing_content_is_empty_translation [OF cfg exChat_fetch good nostr] rest
  show ?thesis by simp
qed

lemma exRegistry_run:
  "fetchRegistry (exCloud exRegistry) (ustr ''http://r'') = (Inr [exMeta], [ustr ''http://r''])"
  by code_simp

lemma exRegistry_items:
  "\<not> truthy (orElse (optGet (JObj [(ustr ''downloadUrl'', JStr (ustr ''http://e''))]) ''scope'')
        (orElse (optGet (JObj [(ustr ''downloadUrl'', JStr (ustr ''http://e''))]) ''id'') (JStr [])))
   \<and> jsString (\<lambda>n. ustr ''0'')
        (orElse (optGet (JObj [(ustr ''downloadUrl'', JStr (ustr ''http://e''))]) ''downloadUrl'')
          (orElse (optGet (JObj [(ustr ''downloadUrl'', JStr (ustr ''http://e''))]) ''url'') (JStr [])))
       = Inr (ustr ''http://e'')
   \<and> \<not> truthy (orElse (optGet (JObj [(ustr ''id'', JStr (ustr ''nourl''))]) ''downloadUrl'')
        (orElse (optGet (JObj [(ustr ''id'', JStr (ustr ''nourl''))]) ''url'') (JStr [])))
   \<and> jsString (\<lambda>n. ustr ''0'')
        (orElse (optGet (JObj [(ustr ''id'', JStr (ustr ''nourl''))]) ''scope'')
          (orElse (optGet (JObj [(ustr ''id'', JStr (ustr ''nourl''))]) ''id'') (JStr [])))
       = Inr (ustr ''nourl'')"
  by code_simp

text \<open>
  Claim C10 as stated fails: an item without \<open>scope\<close> and \<open>id\<close> whose \<open>url\<close> is an
  object with an own \<open>toString\<close> property is not dropped; the conversion of the URL
  throws a TypeError and \<open>fetchRegistry\<close> fails.
\<close>

theorem registry_conversion_throws:
  "optGet (JObj [(ustr ''url'', JObj [(ustr ''toString'', JNum 1)])]) ''scope'' = JUndefined
   \<and> optGet (JObj [(ustr ''url'', JObj [(ustr ''toString'', JNum 1)])]) ''id'' = JUndefined
   \<and> normalizeMeta (\<lambda>n. ustr ''0'') (\<lambda>t. NaN)
        (JObj [(ustr ''url'', JObj [(ustr ''toString'', JNum 1)])]) 0 = Inl TypeError
   \<and> fst (fetchRegistry (exCloud exBadRegistry) (ustr ''http://r'')) = Inl TypeError"
  by code_simp

text \<open>
  Claim C10, amended, at a concrete registry with one complete and two incomplete
  items.
\<close>

theorem fetchRegistry_keeps_complete_items_witness:
  "metaScope exMeta \<noteq> [] \<and> metaDownloadUrl exMeta \<noteq> []
   \<and> normalizeMeta (\<lambda>n. ustr ''0'') (\<lambda>t. NaN)
        (JObj [(ustr ''downloadUrl'', JStr (ustr ''http://e''))]) 2 = Inr None
   \<and> normalizeMeta (\<lambda>n. ustr ''0'') (\<lambda>t. NaN)
        (JObj [(ustr ''id'', JStr (ustr ''nourl''))]) 1 = Inr None
   \<and> fetchRegistry (exCloud exRegistry) [] = (Inr [], [])"
proof -
  note t = fetchRegistry_keeps_complete_items
    [of "exCloud exRegistry" "ustr ''http://r''" "\<lambda>n. ustr ''0''" "\<lambda>t. NaN"]
  from t exRegistry_run have a: "metaScope exMeta \<noteq> [] \<and> metaDownloadUrl exMeta \<noteq> []"
    by (meson list.set_intros(1))
  from t exRegistry_items have b: "normalizeMeta (\<lambda>n. ustr ''0'') (\<lambda>t. NaN)
        (JObj [(ustr ''downloadUrl'', JStr (ustr ''http://e''))]) 2 = Inr None"
    by blast
  from t exRegistry_items have c: "normalizeMeta (\<lambda>n. ustr ''0'') (\<lambda>t. NaN)
        (JObj [(ustr ''id'', JStr (ustr ''nourl''))]) 1 = Inr None"
    by blast
  from t have d: "fetchRegistry (exCloud exRegistry) [] = (Inr [], [])" by blast
  from a b c d show ?thesis by blast
qed

end
